theory Spec2Isabelle
  imports Complex_Main "HOL-Library.Sublist"
begin

section \<open>Data model (types.ts and the state of App)\<close>

text \<open>
  The program is a single-threaded React application.  Its background-asset
  code lives in the \<open>App\<close> component: a handful of \<open>useState\<close> cells, two
  browser stores (IndexedDB and localStorage), the registry of object URLs,
  and the \<open>async\<close> function \<open>triggerBgTransition\<close> with its timers.  The
  embedding keeps all of that in one record that every handler takes and
  returns; what the browser decides (whether an image decodes, which object
  URL is handed out, what hour it is) is an explicit argument.
\<close>

datatype ClockStyle =
    IOS_MODERN | IOS_CLEAN | ANALOG | NEON | ELEGANT | WORD
  | CHINESE_VERTICAL | CHINESE_INK | CHINESE_CLASSIC

datatype CalendarStyle =
    GRID | LIST | BIG_CARD | STRIP | DOTS | RED_FESTIVE | INK_SCROLL

record AppSettings =
  showSeconds :: bool
  is24Hour :: bool
  clockStyle :: ClockStyle
  calendarStyle :: CalendarStyle
  showCalendar :: bool
  brightness :: rat
  bingApiUrl :: string
  clockScale :: rat
  calendarScale :: rat
  enableDayNightMode :: bool
  dayBgUrl :: string
  nightBgUrl :: string

text \<open>The literal type \<open>'image' | 'video'\<close> of \<open>bgType\<close> and \<open>nextBgType\<close>.\<close>

datatype kind = Image | Video

text \<open>
  A \<open>Blob\<close> (or \<open>File\<close>) is known by the identity of its bytes only.  A value
  of type \<open>Blob | string\<close> is what \<open>compressImage\<close> accepts and what the
  IndexedDB store holds.
\<close>

type_synonym blob = nat

datatype asset = BlobA blob | StrA string

datatype log_entry = ConsoleWarn string | ConsoleError string

text \<open>
  One call of \<open>triggerBgTransition\<close> that got past its guard.  The call
  suspends three times: on the preload promise, on the 1500 ms timer and on
  the 100 ms timer that clears the top layer; \<open>c_at\<close> says where it stands.
\<close>

datatype stage = AwaitPreload | AwaitFade | AwaitClear | Finished

record call =
  c_source :: string
  c_type :: kind
  c_at :: stage

record app =
  bgImage :: string
  nextBgImage :: "string option"
  isBgTransitioning :: bool
  bgType :: kind
  nextBgType :: kind
  settings :: AppSettings
  hours :: int
  db :: "string \<rightharpoonup> asset"
  savedSettings :: "AppSettings option"
  objectUrls :: "(string \<times> blob) list"
  revoked :: "string list"
  console :: "log_entry list"
  calls :: "call list"
  rafPending :: nat

definition KEY_BG :: string where
  "KEY_BG = ''current_bg_file''"

definition KEY_BG_TYPE :: string where
  "KEY_BG_TYPE = ''current_bg_type''"

definition defaultBg :: string where
  "defaultBg = ''https://picsum.photos/1920/1080?blur=2''"

definition defaultNightBg :: string where
  "defaultNightBg =
     ''https://images.unsplash.com/photo-1472552944129-b035e9ea3744?q=80&w=1920&auto=format&fit=crop''"

text \<open>The object literal returned at the end of the settings initialiser.\<close>

definition defaultSettings :: AppSettings where
  "defaultSettings =
     \<lparr> showSeconds = True, is24Hour = False, clockStyle = IOS_MODERN,
       calendarStyle = GRID, showCalendar = True, brightness = 2 / 10,
       bingApiUrl = ''https://bing.img.run/rand.php'', clockScale = 1,
       calendarScale = 5 / 10, enableDayNightMode = False,
       dayBgUrl = defaultBg, nightBgUrl = defaultNightBg \<rparr>"

text \<open>
  The state of a freshly mounted \<open>App\<close>: the \<open>useState\<close> initialisers, the
  settings the initialiser produced, and the IndexedDB contents found on disk.
  Object URLs do not outlive the document, so the registry starts empty.
\<close>

definition initApp :: "AppSettings \<Rightarrow> (string \<rightharpoonup> asset) \<Rightarrow> app" where
  "initApp st store =
     \<lparr> bgImage = defaultBg, nextBgImage = None, isBgTransitioning = False,
       bgType = Image, nextBgType = Image, settings = st, hours = 0,
       db = store, savedSettings = Some st, objectUrls = [], revoked = [],
       console = [], calls = [], rafPending = 0 \<rparr>"

text \<open>
  What a callback sees of the component state.  Handlers and effects are
  closures of the render in which they were created: they read \<open>bgImage\<close>
  (through \<open>triggerBgTransition\<close>, a \<open>useCallback\<close> on \<open>[bgImage]\<close>) and
  \<open>settings\<close> as they were in that render, however long they have been
  suspended on an \<open>await\<close> since.  State setters and the browser stores act
  on the current state.
\<close>

record render =
  r_bgImage :: string
  r_settings :: AppSettings

definition renderOf :: "app \<Rightarrow> render" where
  "renderOf s = \<lparr> r_bgImage = bgImage s, r_settings = settings s \<rparr>"

section \<open>Browser primitives\<close>

text \<open>
  \<open>URL.createObjectURL\<close> returns a new URL of scheme \<open>blob:\<close>; the rest of
  the URL is chosen by the browser and is the argument \<open>uid\<close>.
\<close>

definition createObjectURL :: "string \<Rightarrow> blob \<Rightarrow> app \<Rightarrow> string \<times> app" where
  "createObjectURL uid b s =
     (''blob:'' @ uid, s\<lparr>objectUrls := (''blob:'' @ uid, b) # objectUrls s\<rparr>)"

definition revokeObjectURL :: "string \<Rightarrow> app \<Rightarrow> app" where
  "revokeObjectURL url s = s\<lparr>revoked := url # revoked s\<rparr>"

definition consoleLog :: "log_entry \<Rightarrow> app \<Rightarrow> app" where
  "consoleLog e s = s\<lparr>console := console s @ [e]\<rparr>"

section \<open>compressImage\<close>

text \<open>
  What the browser reports for \<open>img.src = url\<close>: \<open>onerror\<close>, or \<open>onload\<close>
  with the decoded \<open>img.width\<close> and \<open>img.height\<close>.
\<close>

datatype decode_outcome = LoadError | Loaded nat nat

datatype compress_error = DecodeFailed | CanvasContextFailed

text \<open>
  The arguments that reach \<open>canvas.toDataURL\<close>: the canvas size, the drawn
  source, the MIME type and the quality.  The encoder itself is the browser's
  and stays a parameter \<open>enc\<close> of the model.
\<close>

record canvas_call =
  cv_width :: nat
  cv_height :: nat
  cv_image :: asset
  cv_mime :: string
  cv_quality :: rat

definition maxDim :: nat where
  "maxDim = 1920"

text \<open>
  \<open>Math.round(a / b)\<close> on natural numbers with \<open>b > 0\<close>: the nearest
  integer, a tie going up.  The double-precision quotient rounds to the same
  integer as the exact one whenever both dimensions are below \<open>2^42\<close>, far
  beyond what an image can have.
\<close>

definition mathRoundDiv :: "nat \<Rightarrow> nat \<Rightarrow> nat" where
  "mathRoundDiv a b = (2 * a + b) div (2 * b)"

text \<open>The resolution limit in \<open>img.onload\<close>, up to the assignment of the canvas size.\<close>

definition limitResolution :: "nat \<Rightarrow> nat \<Rightarrow> nat \<times> nat" where
  "limitResolution width height =
     (if width > maxDim \<or> height > maxDim then
        (if width > height
         then (maxDim, mathRoundDiv (height * maxDim) width)
         else (mathRoundDiv (width * maxDim) height, maxDim))
      else (width, height))"

text \<open>
  \<open>compressImage\<close>.  \<open>ctx\<close> says whether \<open>canvas.getContext('2d')\<close> returned a
  context.  A \<open>File\<close> or \<open>Blob\<close> source gets a temporary object URL that is
  revoked in both handlers; a string source is used as the URL itself.
\<close>

definition compressImage ::
  "(canvas_call \<Rightarrow> string) \<Rightarrow> string \<Rightarrow> asset \<Rightarrow> decode_outcome \<Rightarrow> bool \<Rightarrow> app
     \<Rightarrow> (compress_error + string) \<times> app" where
  "compressImage enc uid source outcome ctx s =
     (let isBlob = (case source of BlobA _ \<Rightarrow> True | StrA _ \<Rightarrow> False);
          (url, s1) = (case source of
                         BlobA b \<Rightarrow> createObjectURL uid b s
                       | StrA u \<Rightarrow> (u, s));
          s2 = (if isBlob then revokeObjectURL url s1 else s1)
      in case outcome of
           Loaded w h \<Rightarrow>
             (let (width, height) = limitResolution w h
              in if ctx
                 then (Inr (enc \<lparr> cv_width = width, cv_height = height,
                                  cv_image = source, cv_mime = ''image/jpeg'',
                                  cv_quality = 7 / 10 \<rparr>), s2)
                 else (Inl CanvasContextFailed, s2))
         | LoadError \<Rightarrow> (Inl DecodeFailed, s2))"

section \<open>Day/night selection\<close>

text \<open>\<open>const isDayTime = time.hours >= 6 && time.hours < 18\<close>.\<close>

definition isDayTime :: "int \<Rightarrow> bool" where
  "isDayTime h = (h \<ge> 6 \<and> h < 18)"

text \<open>\<open>const targetUrl = isDayTime ? settings.dayBgUrl : settings.nightBgUrl\<close>.\<close>

definition targetUrl :: "int \<Rightarrow> AppSettings \<Rightarrow> string" where
  "targetUrl h st = (if isDayTime h then dayBgUrl st else nightBgUrl st)"

section \<open>The two stores\<close>

text \<open>
  IndexedDB, object store \<open>assets\<close>.  \<open>saveAssetToDB\<close> swallows every
  exception and logs it; a transaction that aborts after \<open>store.put\<close> (quota)
  goes unnoticed.  \<open>getAssetFromDB\<close> turns a failing \<open>initDB\<close> into
  \<open>undefined\<close> and rejects when the request itself fails.
\<close>

datatype write_io = WriteOk | WriteThrows | WriteAborted

datatype read_io = ReadOk | OpenFails | RequestFails

definition saveAssetToDB :: "write_io \<Rightarrow> string \<Rightarrow> asset \<Rightarrow> app \<Rightarrow> app" where
  "saveAssetToDB io key data s =
     (case io of
        WriteOk \<Rightarrow> s\<lparr>db := (db s)(key \<mapsto> data)\<rparr>
      | WriteThrows \<Rightarrow> consoleLog (ConsoleError ''Failed to save to DB:'') s
      | WriteAborted \<Rightarrow> s)"

definition getAssetFromDB :: "read_io \<Rightarrow> string \<Rightarrow> app \<Rightarrow> (unit + asset option) \<times> app" where
  "getAssetFromDB io key s =
     (case io of
        ReadOk \<Rightarrow> (Inr (db s key), s)
      | OpenFails \<Rightarrow> (Inr None, consoleLog (ConsoleError ''Failed to read from DB:'') s)
      | RequestFails \<Rightarrow> (Inl (), s))"

text \<open>
  \<open>setSettings\<close>, together with the effect that follows every change of
  \<open>settings\<close>: \<open>localStorage.setItem('clockSettings', JSON.stringify(settings))\<close>.
\<close>

definition setSettings :: "(AppSettings \<Rightarrow> AppSettings) \<Rightarrow> app \<Rightarrow> app" where
  "setSettings f s =
     s\<lparr>settings := f (settings s), savedSettings := Some (f (settings s))\<rparr>"

section \<open>triggerBgTransition\<close>

text \<open>
  The function is a closure over \<open>bgImage\<close>: its guard compares the
  requested source with \<open>seen\<close>, the \<open>bgImage\<close> of the render in which the
  caller got hold of the function, not with the \<open>bgImage\<close> of the state in
  which the call is made.  A call that passes the guard suspends on its
  preload promise.
\<close>

definition triggerBgTransition :: "string \<Rightarrow> string \<Rightarrow> kind \<Rightarrow> app \<Rightarrow> app" where
  "triggerBgTransition seen newSource type s =
     (if newSource = seen then s
      else s\<lparr>calls := calls s @
                 [\<lparr>c_source = newSource, c_type = type, c_at = AwaitPreload\<rparr>]\<rparr>)"

text \<open>
  The preload promise of call \<open>i\<close> settles; \<open>ok\<close> tells \<open>onload\<close> /
  \<open>onloadeddata\<close> from \<open>onerror\<close>.  Both handlers resolve, only the image's
  \<open>onerror\<close> writes to the console.  The continuation sets the top layer,
  requests the animation frames and starts the 1500 ms timer.
\<close>

definition preloadSettled :: "nat \<Rightarrow> bool \<Rightarrow> app \<Rightarrow> app" where
  "preloadSettled i ok s =
     (if i < length (calls s) \<and> c_at (calls s ! i) = AwaitPreload then
        (let c = calls s ! i;
             s1 = (if c_type c = Image \<and> \<not> ok
                   then consoleLog
                          (ConsoleWarn ''Image preload failed, attempting to show anyway.'') s
                   else s)
         in s1\<lparr>nextBgImage := Some (c_source c), nextBgType := c_type c,
                rafPending := rafPending s1 + 1,
                calls := (calls s1)[i := c\<lparr>c_at := AwaitFade\<rparr>]\<rparr>)
      else s)"

text \<open>The inner \<open>requestAnimationFrame\<close> callback of some call runs.\<close>

definition animationFrame :: "app \<Rightarrow> app" where
  "animationFrame s =
     (if rafPending s > 0
      then s\<lparr>isBgTransitioning := True, rafPending := rafPending s - 1\<rparr>
      else s)"

text \<open>
  The 1500 ms timer of call \<open>i\<close> fires.  The branch
  \<open>if (bgImage.startsWith('blob:') && bgImage !== newSource)\<close> has an empty
  body in the source (its \<open>URL.revokeObjectURL(bgImage)\<close> is commented out),
  so nothing is revoked here.
\<close>

definition fadeElapsed :: "nat \<Rightarrow> app \<Rightarrow> app" where
  "fadeElapsed i s =
     (if i < length (calls s) \<and> c_at (calls s ! i) = AwaitFade then
        (let c = calls s ! i
         in s\<lparr>bgImage := c_source c, bgType := c_type c,
               isBgTransitioning := False,
               calls := (calls s)[i := c\<lparr>c_at := AwaitClear\<rparr>]\<rparr>)
      else s)"

text \<open>The 100 ms timer of call \<open>i\<close> fires: \<open>setNextBgImage(null)\<close>.\<close>

definition clearElapsed :: "nat \<Rightarrow> app \<Rightarrow> app" where
  "clearElapsed i s =
     (if i < length (calls s) \<and> c_at (calls s ! i) = AwaitClear then
        s\<lparr>nextBgImage := None,
          calls := (calls s)[i := (calls s ! i)\<lparr>c_at := Finished\<rparr>]\<rparr>
      else s)"

text \<open>
  One transition carried through from the request to the cleared top layer,
  with no other event in between; the request is made from the current
  render.
\<close>

definition completeTransition :: "string \<Rightarrow> kind \<Rightarrow> bool \<Rightarrow> app \<Rightarrow> app" where
  "completeTransition newSource type ok s =
     (let i = length (calls s)
      in clearElapsed i (fadeElapsed i (animationFrame
           (preloadSettled i ok (triggerBgTransition (bgImage s) newSource type s)))))"

section \<open>Day/night effect\<close>

text \<open>
  The \<open>i\<close> flag of the pattern folds the case of ASCII letters only.  A
  capital letter (codes 65 to 90) becomes the small one by setting the bit
  of weight 32.
\<close>

definition toLower :: "char \<Rightarrow> char" where
  "toLower c =
     (let n = (of_char c :: nat)
      in if 65 \<le> n \<and> n \<le> 90
         then (case c of Char b0 b1 b2 b3 b4 b5 b6 b7 \<Rightarrow> Char b0 b1 b2 b3 b4 True b6 b7)
         else c)"

text \<open>
  \<open>isVideoUrl\<close>: the empty string is not a video; otherwise the two prefixes
  or the case-insensitive pattern \<open>/\.(mp4|webm|ogg)$/i\<close>.
\<close>

definition isVideoUrl :: "string \<Rightarrow> bool" where
  "isVideoUrl url =
     (if url = [] then False
      else prefix ''data:video'' url \<or> prefix ''blob:'' url \<or>
           suffix ''.mp4'' (map toLower url) \<or>
           suffix ''.webm'' (map toLower url) \<or>
           suffix ''.ogg'' (map toLower url))"

text \<open>
  The call of \<open>triggerBgTransition\<close> that the day/night effect makes in a
  state, if it makes one.  The effect has \<open>bgImage\<close>, \<open>nextBgImage\<close> and
  \<open>triggerBgTransition\<close> among its dependencies and calls without an
  \<open>await\<close>, so it sees the current render.
\<close>

definition dayNightRequest :: "app \<Rightarrow> (string \<times> kind) option" where
  "dayNightRequest s =
     (if enableDayNightMode (settings s) then
        (let target = targetUrl (hours s) (settings s)
         in if target \<noteq> [] \<and> bgImage s \<noteq> target \<and> nextBgImage s \<noteq> Some target
            then Some (target, if isVideoUrl target then Video else Image)
            else None)
      else None)"

definition dayNightEffect :: "app \<Rightarrow> app" where
  "dayNightEffect s =
     (case dayNightRequest s of
        None \<Rightarrow> s
      | Some (target, type) \<Rightarrow> triggerBgTransition (bgImage s) target type s)"

text \<open>The one-second interval: \<open>setTime\<close> with the hour of the wall clock.\<close>

definition tick :: "int \<Rightarrow> app \<Rightarrow> app" where
  "tick h s = s\<lparr>hours := h\<rparr>"

section \<open>Startup restoration\<close>

text \<open>
  \<open>savedType || 'image'\<close>, where \<open>savedType\<close> was read under \<open>KEY_BG_TYPE\<close>
  and cast to \<open>'image' | 'video'\<close> without a check.  The program writes only
  the strings \<open>'image'\<close> and \<open>'video'\<close> under that key; any other value
  would be rendered as an image (\<open>bgType === 'video'\<close> is false), which is
  how the model reads it.
\<close>

definition savedKind :: "asset option \<Rightarrow> kind" where
  "savedKind v = (if v = Some (StrA ''video'') then Video else Image)"

text \<open>
  \<open>restoreBackground\<close>, run by the effect on \<open>[settings.enableDayNightMode]\<close>
  (at mount and whenever the mode changes); \<open>rd\<close> is the render the effect
  ran in.  The two reads and the call of \<open>triggerBgTransition\<close> are taken as
  one step, made once the reads are over.  A rejected read lands in the
  \<open>catch\<close> of \<open>restoreBackground\<close>.
\<close>

definition restoreBackground ::
  "render \<Rightarrow> read_io \<Rightarrow> read_io \<Rightarrow> string \<Rightarrow> app \<Rightarrow> app" where
  "restoreBackground rd ioType ioAsset uid s =
     (if enableDayNightMode (r_settings rd) then s
      else
        (case getAssetFromDB ioType KEY_BG_TYPE s of
           (Inl _, s1) \<Rightarrow> consoleLog (ConsoleError ''Error restoring background:'') s1
         | (Inr savedType, s1) \<Rightarrow>
             (case getAssetFromDB ioAsset KEY_BG s1 of
                (Inl _, s2) \<Rightarrow> consoleLog (ConsoleError ''Error restoring background:'') s2
              | (Inr None, s2) \<Rightarrow> s2
              | (Inr (Some (BlobA b)), s2) \<Rightarrow>
                  (let (url, s3) = createObjectURL uid b s2
                   in if url \<noteq> []
                      then triggerBgTransition (r_bgImage rd) url (savedKind savedType) s3
                      else s3)
              | (Inr (Some (StrA str)), s2) \<Rightarrow>
                  (if str \<noteq> []
                   then triggerBgTransition (r_bgImage rd) str (savedKind savedType) s2
                   else s2))))"

section \<open>Ingestion handlers\<close>

text \<open>
  Each handler is taken as one step up to its call of
  \<open>triggerBgTransition\<close>, made once its awaits (compression, fetch, the
  IndexedDB writes) are over.  \<open>rd\<close> is the render in which the handler was
  started: it gives the \<open>settings\<close> the handler reads and the \<open>bgImage\<close> the
  guard of \<open>triggerBgTransition\<close> compares with, and it is older than the
  state whenever something was displayed while the handler was suspended.
  \<open>nowHour\<close> is \<open>new Date().getHours()\<close>.  The handlers also close the
  settings dialog and drive a spinner, which is presentation and left out.
\<close>

text \<open>\<open>{...s, [isDay ? 'dayBgUrl' : 'nightBgUrl']: v}\<close>.\<close>

definition setSlot :: "bool \<Rightarrow> string \<Rightarrow> AppSettings \<Rightarrow> AppSettings" where
  "setSlot isDay v st = (if isDay then st\<lparr>dayBgUrl := v\<rparr> else st\<lparr>nightBgUrl := v\<rparr>)"

text \<open>
  \<open>handleImageFileChange\<close> for a chosen file.  \<open>readerResult\<close> is what the
  \<open>FileReader\<close> of the \<open>catch\<close> branch delivers.
\<close>

definition handleImageFileChange ::
  "(canvas_call \<Rightarrow> string) \<Rightarrow> render \<Rightarrow> blob \<Rightarrow> string \<Rightarrow> decode_outcome \<Rightarrow> bool \<Rightarrow>
     write_io \<Rightarrow> write_io \<Rightarrow> int \<Rightarrow> string \<Rightarrow> app \<Rightarrow> app" where
  "handleImageFileChange enc rd file uid outcome ctx io1 io2 nowHour readerResult s =
     (case compressImage enc uid (BlobA file) outcome ctx s of
        (Inr compressedUrl, s1) \<Rightarrow>
          (if \<not> enableDayNightMode (r_settings rd) then
             triggerBgTransition (r_bgImage rd) compressedUrl Image
               (saveAssetToDB io2 KEY_BG_TYPE (StrA ''image'')
                 (saveAssetToDB io1 KEY_BG (StrA compressedUrl) s1))
           else
             (let isDay = (nowHour \<ge> 6 \<and> nowHour < 18)
              in if isDay then setSettings (\<lambda>st. st\<lparr>dayBgUrl := compressedUrl\<rparr>) s1
                 else setSettings (\<lambda>st. st\<lparr>nightBgUrl := compressedUrl\<rparr>) s1))
      | (Inl err, s1) \<Rightarrow>
          triggerBgTransition (r_bgImage rd) readerResult Image
            (consoleLog (ConsoleError ''Compression failed'') s1))"

definition handleVideoFileChange ::
  "render \<Rightarrow> blob \<Rightarrow> string \<Rightarrow> write_io \<Rightarrow> write_io \<Rightarrow> int \<Rightarrow> app \<Rightarrow> app" where
  "handleVideoFileChange rd file uid io1 io2 nowHour s =
     (let (videoUrl, s1) = createObjectURL uid file s
      in if \<not> enableDayNightMode (r_settings rd) then
           triggerBgTransition (r_bgImage rd) videoUrl Video
             (saveAssetToDB io2 KEY_BG_TYPE (StrA ''video'')
               (saveAssetToDB io1 KEY_BG (BlobA file) s1))
         else
           (let isDay = (nowHour \<ge> 6 \<and> nowHour < 18)
            in if isDay then setSettings (\<lambda>st. st\<lparr>dayBgUrl := videoUrl\<rparr>) s1
               else setSettings (\<lambda>st. st\<lparr>nightBgUrl := videoUrl\<rparr>) s1))"

text \<open>
  \<open>handleDayNightUpload\<close> of the settings dialog; \<open>isVideo\<close> is
  \<open>file.type.startsWith('video')\<close>.  A rejected \<open>compressImage\<close> has no
  handler here.  It reads nothing of its render.
\<close>

definition handleDayNightUpload ::
  "(canvas_call \<Rightarrow> string) \<Rightarrow> blob \<Rightarrow> bool \<Rightarrow> bool \<Rightarrow> string \<Rightarrow> decode_outcome \<Rightarrow> bool
     \<Rightarrow> app \<Rightarrow> app" where
  "handleDayNightUpload enc file isVideo isDaySlot uid outcome ctx s =
     (if isVideo then
        (let (url, s1) = createObjectURL uid file s
         in setSettings (setSlot isDaySlot url) s1)
      else
        (case compressImage enc uid (BlobA file) outcome ctx s of
           (Inr url, s1) \<Rightarrow> setSettings (setSlot isDaySlot url) s1
         | (Inl err, s1) \<Rightarrow> s1))"

datatype fetch_outcome = FetchFailed | Fetched blob

text \<open>
  \<open>handleFetchBg\<close>.  \<open>entropy\<close> is the cache-busting suffix; the \<open>catch\<close>
  branch is reached from a failed fetch and from a rejected \<open>compressImage\<close>.
\<close>

definition handleFetchBg ::
  "(canvas_call \<Rightarrow> string) \<Rightarrow> render \<Rightarrow> string \<Rightarrow> fetch_outcome \<Rightarrow> string \<Rightarrow>
     decode_outcome \<Rightarrow> bool \<Rightarrow> write_io \<Rightarrow> write_io \<Rightarrow> int \<Rightarrow> app \<Rightarrow> app" where
  "handleFetchBg enc rd entropy fetched uid outcome ctx io1 io2 nowHour s =
     (let url = bingApiUrl (r_settings rd) in
      if url = [] then s
      else
        (let separator = (if CHR ''?'' \<in> set url then ''&'' else ''?'');
             fetchUrl = url @ separator @ ''t='' @ entropy;
             dayNight = enableDayNightMode (r_settings rd);
             isDay = (nowHour \<ge> 6 \<and> nowHour < 18);
             fallback = (\<lambda>s'.
               (let s2 = consoleLog
                           (ConsoleWarn ''Fetch or compress failed, fallback to URL load'') s'
                in if \<not> dayNight then
                     triggerBgTransition (r_bgImage rd) fetchUrl Image
                       (saveAssetToDB io2 KEY_BG_TYPE (StrA ''image'')
                         (saveAssetToDB io1 KEY_BG (StrA fetchUrl) s2))
                   else setSettings (setSlot isDay fetchUrl) s2))
         in case fetched of
              FetchFailed \<Rightarrow> fallback s
            | Fetched b \<Rightarrow>
                (case compressImage enc uid (BlobA b) outcome ctx s of
                   (Inr compressedDataUrl, s1) \<Rightarrow>
                     (if \<not> dayNight then
                        triggerBgTransition (r_bgImage rd) compressedDataUrl Image
                          (saveAssetToDB io2 KEY_BG_TYPE (StrA ''image'')
                            (saveAssetToDB io1 KEY_BG (StrA compressedDataUrl) s1))
                      else setSettings (setSlot isDay compressedDataUrl) s1)
                 | (Inl err, s1) \<Rightarrow> fallback s1)))"

section \<open>The application as an event system\<close>

text \<open>
  Everything that can happen to the modelled state: the effects, the handlers
  and the callbacks of the calls in flight.  A callback that is not pending
  leaves the state as it is.  The event of a handler stands where the
  handler's awaits are over and carries the render in which the handler was
  started; any render is admitted, so the runs include every way in which a
  handler can be overtaken.
\<close>

datatype event =
    RestoreBackground render read_io read_io string
  | Tick int
  | DayNightEffect
  | ToggleDayNightMode
  | ImageFileChange render blob string decode_outcome bool write_io write_io int string
  | VideoFileChange render blob string write_io write_io int
  | DayNightUpload blob bool bool string decode_outcome bool
  | FetchBg render string fetch_outcome string decode_outcome bool write_io write_io int
  | PreloadSettled nat bool
  | AnimationFrame
  | FadeElapsed nat
  | ClearElapsed nat

fun step :: "(canvas_call \<Rightarrow> string) \<Rightarrow> event \<Rightarrow> app \<Rightarrow> app" where
  "step enc (RestoreBackground rd ioType ioAsset uid) s =
     restoreBackground rd ioType ioAsset uid s"
| "step enc (Tick h) s = tick h s"
| "step enc DayNightEffect s = dayNightEffect s"
| "step enc ToggleDayNightMode s =
     setSettings (\<lambda>st. st\<lparr>enableDayNightMode := \<not> enableDayNightMode st\<rparr>) s"
| "step enc (ImageFileChange rd file uid outcome ctx io1 io2 nowHour readerResult) s =
     handleImageFileChange enc rd file uid outcome ctx io1 io2 nowHour readerResult s"
| "step enc (VideoFileChange rd file uid io1 io2 nowHour) s =
     handleVideoFileChange rd file uid io1 io2 nowHour s"
| "step enc (DayNightUpload file isVideo isDaySlot uid outcome ctx) s =
     handleDayNightUpload enc file isVideo isDaySlot uid outcome ctx s"
| "step enc (FetchBg rd entropy fetched uid outcome ctx io1 io2 nowHour) s =
     handleFetchBg enc rd entropy fetched uid outcome ctx io1 io2 nowHour s"
| "step enc (PreloadSettled i ok) s = preloadSettled i ok s"
| "step enc AnimationFrame s = animationFrame s"
| "step enc (FadeElapsed i) s = fadeElapsed i s"
| "step enc (ClearElapsed i) s = clearElapsed i s"

fun run :: "(canvas_call \<Rightarrow> string) \<Rightarrow> event list \<Rightarrow> app \<Rightarrow> app" where
  "run enc [] s = s"
| "run enc (e # es) s = run enc es (step enc e s)"

section \<open>Phases of the transition engine\<close>

text \<open>
  The source has no phase variable.  The phase of a call is read off the
  place where it is suspended; the phase of the engine is that of the most
  recent call that has not finished, and Idle when there is none.
\<close>

datatype phase = Idle | Preloading | Fading | Finalizing

fun phaseOf :: "stage \<Rightarrow> phase" where
  "phaseOf AwaitPreload = Preloading"
| "phaseOf AwaitFade = Fading"
| "phaseOf AwaitClear = Finalizing"
| "phaseOf Finished = Idle"

definition phase :: "app \<Rightarrow> phase" where
  "phase s =
     (case filter (\<lambda>c. c_at c \<noteq> Finished) (calls s) of
        [] \<Rightarrow> Idle
      | c # cs \<Rightarrow> phaseOf (c_at (last (c # cs))))"

text \<open>A sample encoder for concrete runs.\<close>

definition sampleEnc :: "canvas_call \<Rightarrow> string" where
  "sampleEnc c = ''data:'' @ cv_mime c @ '';base64,AAAA''"

section \<open>Loading the settings\<close>

text \<open>
  The \<open>useState\<close> initialiser of \<open>settings\<close> works on whatever
  \<open>JSON.parse\<close> returns, so its subject is an untyped object: a finite map
  from property names to JSON values, a missing property reading as
  \<open>undefined\<close>.  Nested arrays and objects are opaque; an array at the top
  is an object whose properties are its indices.
\<close>

datatype json = JNull | JBool bool | JNum rat | JStr string | JNested

type_synonym jsobject = "string \<rightharpoonup> json"

text \<open>
  The outcome of \<open>JSON.parse(saved)\<close>: a \<open>SyntaxError\<close>, a value that is not
  an object (\<open>null\<close>, a number, a string, a boolean), or an object.
\<close>

datatype parse_result = Throws | NotAnObject | Object jsobject

fun clockStyleValue :: "ClockStyle \<Rightarrow> string" where
  "clockStyleValue IOS_MODERN = ''IOS_MODERN''"
| "clockStyleValue IOS_CLEAN = ''IOS_CLEAN''"
| "clockStyleValue ANALOG = ''ANALOG''"
| "clockStyleValue NEON = ''NEON''"
| "clockStyleValue ELEGANT = ''ELEGANT''"
| "clockStyleValue WORD = ''WORD''"
| "clockStyleValue CHINESE_VERTICAL = ''CHINESE_VERTICAL''"
| "clockStyleValue CHINESE_INK = ''CHINESE_INK''"
| "clockStyleValue CHINESE_CLASSIC = ''CHINESE_CLASSIC''"

fun calendarStyleValue :: "CalendarStyle \<Rightarrow> string" where
  "calendarStyleValue GRID = ''GRID''"
| "calendarStyleValue LIST = ''LIST''"
| "calendarStyleValue BIG_CARD = ''BIG_CARD''"
| "calendarStyleValue STRIP = ''STRIP''"
| "calendarStyleValue DOTS = ''DOTS''"
| "calendarStyleValue RED_FESTIVE = ''RED_FESTIVE''"
| "calendarStyleValue INK_SCROLL = ''INK_SCROLL''"

text \<open>\<open>Object.values(ClockStyle)\<close> and \<open>Object.values(CalendarStyle)\<close>.\<close>

definition clockStyleValues :: "string list" where
  "clockStyleValues =
     map clockStyleValue
       [IOS_MODERN, IOS_CLEAN, ANALOG, NEON, ELEGANT, WORD,
        CHINESE_VERTICAL, CHINESE_INK, CHINESE_CLASSIC]"

definition calendarStyleValues :: "string list" where
  "calendarStyleValues =
     map calendarStyleValue [GRID, LIST, BIG_CARD, STRIP, DOTS, RED_FESTIVE, INK_SCROLL]"

text \<open>A typed settings value as the object it is at run time.\<close>

definition settingsObject :: "AppSettings \<Rightarrow> jsobject" where
  "settingsObject st =
     map_of
       [(''showSeconds'', JBool (showSeconds st)),
        (''is24Hour'', JBool (is24Hour st)),
        (''clockStyle'', JStr (clockStyleValue (clockStyle st))),
        (''calendarStyle'', JStr (calendarStyleValue (calendarStyle st))),
        (''showCalendar'', JBool (showCalendar st)),
        (''brightness'', JNum (brightness st)),
        (''bingApiUrl'', JStr (bingApiUrl st)),
        (''clockScale'', JNum (clockScale st)),
        (''calendarScale'', JNum (calendarScale st)),
        (''enableDayNightMode'', JBool (enableDayNightMode st)),
        (''dayBgUrl'', JStr (dayBgUrl st)),
        (''nightBgUrl'', JStr (nightBgUrl st))]"

text \<open>\<open>Object.values(ClockStyle).includes(parsed.clockStyle)\<close>.\<close>

definition isClockStyle :: "json option \<Rightarrow> bool" where
  "isClockStyle v = (case v of Some (JStr n) \<Rightarrow> n \<in> set clockStyleValues | _ \<Rightarrow> False)"

text \<open>\<open>if (parsed.f === undefined) parsed.f = d\<close>.\<close>

definition fillDefault :: "string \<Rightarrow> json \<Rightarrow> jsobject \<Rightarrow> jsobject" where
  "fillDefault f d parsed = (if parsed f = None then parsed(f \<mapsto> d) else parsed)"

text \<open>
  The initialiser.  Its argument is \<open>None\<close> when \<open>localStorage\<close> has no item
  (or an empty one), else the outcome of \<open>JSON.parse\<close>.  On \<open>null\<close> the
  property read throws, on another primitive the property write throws (the
  file is a module, hence strict); both land in the \<open>catch\<close> like a
  \<open>SyntaxError\<close> does.  The result comes with what was written to the console.
\<close>

definition loadSettings :: "parse_result option \<Rightarrow> jsobject \<times> log_entry list" where
  "loadSettings saved =
     (case saved of
        None \<Rightarrow> (settingsObject defaultSettings, [])
      | Some Throws \<Rightarrow>
          (settingsObject defaultSettings, [ConsoleError ''Failed to parse saved settings:''])
      | Some NotAnObject \<Rightarrow>
          (settingsObject defaultSettings, [ConsoleError ''Failed to parse saved settings:''])
      | Some (Object parsed) \<Rightarrow>
          (let p1 = (if \<not> isClockStyle (parsed ''clockStyle'')
                     then parsed(''clockStyle'' \<mapsto> JStr (clockStyleValue IOS_MODERN))
                     else parsed);
               p2 = fillDefault ''clockScale'' (JNum 1) p1;
               p3 = fillDefault ''calendarScale'' (JNum (5 / 10)) p2;
               p4 = fillDefault ''enableDayNightMode'' (JBool False) p3;
               p5 = fillDefault ''dayBgUrl'' (JStr defaultBg) p4;
               p6 = fillDefault ''nightBgUrl'' (JStr defaultNightBg) p5
           in (p6, [])))"

text \<open>
  The interface \<open>AppSettings\<close> as a check on an object: what each of the
  twelve properties has to be.
\<close>

definition fieldOk :: "string \<Rightarrow> json option \<Rightarrow> bool" where
  "fieldOk f v =
     (case v of
        Some (JBool b) \<Rightarrow>
          f \<in> set [''showSeconds'', ''is24Hour'', ''showCalendar'', ''enableDayNightMode'']
      | Some (JNum x) \<Rightarrow> f \<in> set [''brightness'', ''clockScale'', ''calendarScale'']
      | Some (JStr n) \<Rightarrow>
          (if f = ''clockStyle'' then n \<in> set clockStyleValues
           else if f = ''calendarStyle'' then n \<in> set calendarStyleValues
           else f \<in> set [''bingApiUrl'', ''dayBgUrl'', ''nightBgUrl''])
      | _ \<Rightarrow> False)"

definition fieldNames :: "string list" where
  "fieldNames =
     [''showSeconds'', ''is24Hour'', ''clockStyle'', ''calendarStyle'', ''showCalendar'',
      ''brightness'', ''bingApiUrl'', ''clockScale'', ''calendarScale'',
      ''enableDayNightMode'', ''dayBgUrl'', ''nightBgUrl'']"

definition validSettings :: "jsobject \<Rightarrow> bool" where
  "validSettings obj = list_all (\<lambda>f. fieldOk f (obj f)) fieldNames"

section \<open>Sample states\<close>

text \<open>Day/night mode switched on, at eight in the evening.\<close>

definition nightApp :: app where
  "nightApp =
     tick 20 (initApp (defaultSettings\<lparr>enableDayNightMode := True, dayBgUrl := ''day.jpg'',
                                        nightBgUrl := ''night.WebM''\<rparr>) Map.empty)"

text \<open>A fresh installation, and the upload of a video file into it.\<close>

definition freshApp :: app where
  "freshApp = initApp defaultSettings Map.empty"

text \<open>A render with the default settings that displays \<open>u\<close>.\<close>

definition showing :: "string \<Rightarrow> render" where
  "showing u = \<lparr> r_bgImage = u, r_settings = defaultSettings \<rparr>"

definition videoUploadRun :: "event list" where
  "videoUploadRun = [VideoFileChange (showing defaultBg) 7 ''u1'' WriteOk WriteOk 12]"


section \<open>Invariants of the event system\<close>

text \<open>
  \<open>extends s s'\<close>: the step from \<open>s\<close> to \<open>s'\<close> left the top layer alone and
  at most started new calls.
\<close>

definition extends :: "app \<Rightarrow> app \<Rightarrow> bool" where
  "extends s s' = (nextBgImage s' = nextBgImage s \<and> (\<exists>cs. calls s' = calls s @ cs))"

text \<open>
  The top layer is empty, or some call stands between its preload and the
  timer that clears the layer.
\<close>

definition topLayerOwned :: "app \<Rightarrow> bool" where
  "topLayerOwned s =
     (nextBgImage s = None \<or>
      (\<exists>i < length (calls s). c_at (calls s ! i) = AwaitFade \<or> c_at (calls s ! i) = AwaitClear))"

section \<open>Persisting and restoring\<close>

text \<open>The string that a kind is at run time, as the handlers write it under \<open>KEY_BG_TYPE\<close>.\<close>

fun kindValue :: "kind \<Rightarrow> string" where
  "kindValue Image = ''image''"
| "kindValue Video = ''video''"

text \<open>
  Startup restoration carried to the end of the fade: the mount effect (a
  closure of the render it runs in), the preload of the call it started and
  that call's 1500 ms timer.
\<close>

definition restoreAndFinish :: "string \<Rightarrow> bool \<Rightarrow> app \<Rightarrow> app" where
  "restoreAndFinish uid ok s =
     (let i = length (calls s)
      in fadeElapsed i (preloadSettled i ok (restoreBackground (renderOf s) ReadOk ReadOk uid s)))"

text \<open>
  A video uploaded into a fresh installation and shown, and the next start of
  the application on the IndexedDB contents this left behind.
\<close>

definition uploadedVideo :: app where
  "uploadedVideo = fadeElapsed 0 (preloadSettled 0 True (run sampleEnc videoUploadRun freshApp))"

definition reloadedVideo :: app where
  "reloadedVideo = restoreAndFinish ''u2'' True (initApp defaultSettings (db uploadedVideo))"

section \<open>Sample runs\<close>

text \<open>Three videos uploaded one after the other, each transition carried to its end.\<close>

definition threeUploadsRun :: "event list" where
  "threeUploadsRun =
     [VideoFileChange (showing defaultBg) 1 ''a'' WriteOk WriteOk 12,
      PreloadSettled 0 True, AnimationFrame, FadeElapsed 0, ClearElapsed 0,
      VideoFileChange (showing ''blob:a'') 2 ''b'' WriteOk WriteOk 12,
      PreloadSettled 1 True, AnimationFrame, FadeElapsed 1, ClearElapsed 1,
      VideoFileChange (showing ''blob:b'') 3 ''c'' WriteOk WriteOk 12,
      PreloadSettled 2 True, AnimationFrame, FadeElapsed 2, ClearElapsed 2]"

text \<open>
  Day/night mode on, and the upload of an image file that the browser cannot
  decode.
\<close>

definition dayNightApp :: app where
  "dayNightApp = initApp (defaultSettings\<lparr>enableDayNightMode := True\<rparr>) Map.empty"

definition undecodableUpload :: app where
  "undecodableUpload =
     handleImageFileChange sampleEnc (renderOf dayNightApp) 3 ''t'' LoadError True
       WriteOk WriteOk 12 ''data:image/png;base64,AAAA'' dayNightApp"

text \<open>A transition whose preload fails, for a video and for an image.\<close>

definition failedVideoPreload :: app where
  "failedVideoPreload =
     preloadSettled 0 False
       (triggerBgTransition (bgImage freshApp) ''clip.mp4'' Video freshApp)"

definition failedImagePreload :: app where
  "failedImagePreload =
     preloadSettled 0 False
       (triggerBgTransition (bgImage freshApp) ''pic.jpg'' Image freshApp)"






section \<open>What the settings initialiser guards\<close>

text \<open>
  The five properties the migration fills in when missing, and the six that
  the initialiser returns as it finds them (\<open>clockStyle\<close> is checked
  separately).
\<close>

definition defaultedFields :: "string list" where
  "defaultedFields =
     [''clockScale'', ''calendarScale'', ''enableDayNightMode'', ''dayBgUrl'', ''nightBgUrl'']"

definition unguardedFields :: "string list" where
  "unguardedFields =
     [''showSeconds'', ''is24Hour'', ''calendarStyle'', ''showCalendar'', ''brightness'',
      ''bingApiUrl'']"

text \<open>
  A record as an earlier version of the program would have saved it: a clock
  style that no longer exists, no calendar scale and no day/night properties.
\<close>

definition storedOld :: jsobject where
  "storedOld =
     map_of
       [(''showSeconds'', JBool False), (''is24Hour'', JBool True),
        (''clockStyle'', JStr ''FLIP''), (''calendarStyle'', JStr ''LIST''),
        (''showCalendar'', JBool True), (''brightness'', JNum (3 / 10)),
        (''bingApiUrl'', JStr ''https://example.org/img''), (''clockScale'', JNum (5 / 4))]"

section \<open>Properties\<close>

lemmas engine_defs =
  triggerBgTransition_def preloadSettled_def animationFrame_def fadeElapsed_def
  clearElapsed_def completeTransition_def consoleLog_def tick_def initApp_def Let_def

subsection \<open>The guard of triggerBgTransition\<close>






subsection \<open>Day/night selection\<close>

text \<open>
  Claim C5.  The selected source depends on the hour and the two configured
  URLs only: the day URL for hours from 6 up to but not including 18, the
  night URL for every other hour; 6 and 17 select day, 18 and 5 select night.
\<close>

theorem scheduler_selection:
  "(6 \<le> h \<and> h < 18 \<longrightarrow> targetUrl h st = dayBgUrl st) \<and>
   (h < 6 \<or> 18 \<le> h \<longrightarrow> targetUrl h st = nightBgUrl st) \<and>
   targetUrl 6 st = dayBgUrl st \<and> targetUrl 17 st = dayBgUrl st \<and>
   targetUrl 18 st = nightBgUrl st \<and> targetUrl 5 st = nightBgUrl st"
  by (auto simp: targetUrl_def isDayTime_def)

theorem scheduler_selection_witness:
  "targetUrl 12 defaultSettings = defaultBg \<and>
   targetUrl 3 defaultSettings = defaultNightBg \<and>
   targetUrl 23 defaultSettings = defaultNightBg"
  using scheduler_selection [of 12 defaultSettings] scheduler_selection [of 3 defaultSettings]
    scheduler_selection [of 23 defaultSettings]
  by (simp add: defaultSettings_def)

subsection \<open>Day/night suppression\<close>

lemma dayNightRequest_None_effect:
  "dayNightRequest s = None \<Longrightarrow> dayNightEffect s = s"
  by (simp add: dayNightEffect_def)

text \<open>
  Claim C6.  The day/night effect calls \<open>triggerBgTransition\<close> only with the
  selected source, and only when that source differs from \<open>bgImage\<close> and
  from \<open>nextBgImage\<close>.  Once the selected source is \<open>bgImage\<close> or
  \<open>nextBgImage\<close>, evaluating the effect changes nothing, also after a tick
  that stays on the same side of the day.
\<close>

theorem scheduler_requests_only_new_target:
  "(dayNightRequest s = Some (u, k) \<longrightarrow>
      enableDayNightMode (settings s) \<and> u = targetUrl (hours s) (settings s) \<and>
      u \<noteq> bgImage s \<and> nextBgImage s \<noteq> Some u \<and>
      dayNightEffect s = triggerBgTransition (bgImage s) u k s) \<and>
   (targetUrl (hours s) (settings s) = bgImage s \<or>
    nextBgImage s = Some (targetUrl (hours s) (settings s)) \<longrightarrow>
      dayNightRequest s = None \<and> dayNightEffect s = s \<and>
      (isDayTime h' = isDayTime (hours s) \<longrightarrow>
         dayNightRequest (tick h' s) = None \<and> dayNightEffect (tick h' s) = tick h' s))"
proof (intro conjI impI)
  assume r: "dayNightRequest s = Some (u, k)"
  then show "enableDayNightMode (settings s)"
    by (simp add: dayNightRequest_def split: if_splits)
  from r show "u = targetUrl (hours s) (settings s)"
    by (auto simp: dayNightRequest_def Let_def split: if_splits)
  from r show "u \<noteq> bgImage s"
    by (auto simp: dayNightRequest_def Let_def split: if_splits)
  from r show "nextBgImage s \<noteq> Some u"
    by (auto simp: dayNightRequest_def Let_def split: if_splits)
  from r show "dayNightEffect s = triggerBgTransition (bgImage s) u k s"
    by (simp add: dayNightEffect_def)
next
  assume a: "targetUrl (hours s) (settings s) = bgImage s \<or>
    nextBgImage s = Some (targetUrl (hours s) (settings s))"
  then show n: "dayNightRequest s = None"
    by (auto simp: dayNightRequest_def Let_def)
  then show "dayNightEffect s = s"
    by (rule dayNightRequest_None_effect)
  assume d: "isDayTime h' = isDayTime (hours s)"
  then have t: "targetUrl h' (settings s) = targetUrl (hours s) (settings s)"
    by (simp add: targetUrl_def)
  with a show n': "dayNightRequest (tick h' s) = None"
    by (auto simp: dayNightRequest_def Let_def tick_def)
  then show "dayNightEffect (tick h' s) = tick h' s"
    by (rule dayNightRequest_None_effect)
qed

theorem scheduler_requests_only_new_target_witness:
  "dayNightRequest nightApp = Some (''night.WebM'', Video) \<and>
   ''night.WebM'' \<noteq> bgImage nightApp \<and>
   nextBgImage (preloadSettled 0 True (dayNightEffect nightApp)) = Some ''night.WebM'' \<and>
   dayNightRequest (preloadSettled 0 True (dayNightEffect nightApp)) = None \<and>
   dayNightEffect (tick 21 (preloadSettled 0 True (dayNightEffect nightApp))) =
     tick 21 (preloadSettled 0 True (dayNightEffect nightApp))"
proof -
  have r: "dayNightRequest nightApp = Some (''night.WebM'', Video)"
    by (simp add: nightApp_def dayNightRequest_def targetUrl_def isDayTime_def engine_defs
        defaultSettings_def defaultBg_def isVideoUrl_def toLower_def suffix_to_prefix)
  let ?s = "preloadSettled 0 True (dayNightEffect nightApp)"
  have e: "dayNightEffect nightApp =
      triggerBgTransition (bgImage nightApp) ''night.WebM'' Video nightApp"
    using scheduler_requests_only_new_target [of nightApp "''night.WebM''" Video 21] r by simp
  have b: "''night.WebM'' \<noteq> bgImage nightApp"
    using scheduler_requests_only_new_target [of nightApp "''night.WebM''" Video 21] r by simp
  have nx: "nextBgImage ?s = Some ''night.WebM''"
    unfolding e by (simp add: nightApp_def engine_defs defaultBg_def)
  have tg: "targetUrl (hours ?s) (settings ?s) = ''night.WebM''"
    unfolding e
    by (simp add: nightApp_def engine_defs defaultBg_def targetUrl_def isDayTime_def
        defaultSettings_def)
  have hr: "isDayTime 21 = isDayTime (hours ?s)"
    unfolding e by (simp add: nightApp_def engine_defs defaultBg_def isDayTime_def)
  have "dayNightRequest ?s = None \<and> dayNightEffect (tick 21 ?s) = tick 21 ?s"
    using scheduler_requests_only_new_target [of ?s "''night.WebM''" Video 21] nx tg hr
    by simp
  with r b nx show ?thesis by simp
qed

subsection \<open>The compressor\<close>

lemma mathRoundDiv_lower:
  "2 * b * mathRoundDiv a b \<le> 2 * a + b"
  unfolding mathRoundDiv_def by simp

lemma mathRoundDiv_upper:
  assumes "0 < b"
  shows "2 * a + b < 2 * b * mathRoundDiv a b + 2 * b"
proof -
  have "(2 * a + b) mod (2 * b) < 2 * b"
    using assms by simp
  moreover have "2 * a + b = 2 * b * ((2 * a + b) div (2 * b)) + (2 * a + b) mod (2 * b)"
    by simp
  ultimately show ?thesis
    unfolding mathRoundDiv_def by linarith
qed

lemma mathRoundDiv_le_bound:
  assumes "0 < b" and "a \<le> b * m"
  shows "mathRoundDiv a b \<le> m"
proof -
  have "2 * a + b < 2 * b * (Suc m)"
    using assms by simp
  then have "(2 * a + b) div (2 * b) < Suc m"
    using assms by (simp add: div_less_iff_less_mult mult.commute)
  then show ?thesis
    unfolding mathRoundDiv_def by simp
qed

lemma limitResolution_small:
  "w \<le> 1920 \<Longrightarrow> h \<le> 1920 \<Longrightarrow> limitResolution w h = (w, h)"
  by (simp add: limitResolution_def maxDim_def)

lemma limitResolution_wide:
  assumes "h < w" and "1920 < w \<or> 1920 < h"
  shows "limitResolution w h = (1920, mathRoundDiv (h * 1920) w)"
    and "mathRoundDiv (h * 1920) w \<le> 1920"
proof -
  show "limitResolution w h = (1920, mathRoundDiv (h * 1920) w)"
    using assms by (simp add: limitResolution_def maxDim_def)
  have "0 < w" using assms by simp
  moreover have "h * 1920 \<le> w * 1920" using assms by simp
  ultimately show "mathRoundDiv (h * 1920) w \<le> 1920"
    by (rule mathRoundDiv_le_bound)
qed

lemma limitResolution_tall:
  assumes "w \<le> h" and "1920 < w \<or> 1920 < h"
  shows "limitResolution w h = (mathRoundDiv (w * 1920) h, 1920)"
    and "mathRoundDiv (w * 1920) h \<le> 1920"
proof -
  show "limitResolution w h = (mathRoundDiv (w * 1920) h, 1920)"
    using assms by (auto simp add: limitResolution_def maxDim_def)
  have "0 < h" using assms by auto
  moreover have "w * 1920 \<le> h * 1920" using assms by simp
  ultimately show "mathRoundDiv (w * 1920) h \<le> 1920"
    by (rule mathRoundDiv_le_bound)
qed

lemma compressImage_result:
  "fst (compressImage enc uid source outcome ctx s) =
     (case outcome of
        LoadError \<Rightarrow> Inl DecodeFailed
      | Loaded w h \<Rightarrow>
          if ctx then Inr (enc \<lparr> cv_width = fst (limitResolution w h),
                                 cv_height = snd (limitResolution w h),
                                 cv_image = source, cv_mime = ''image/jpeg'',
                                 cv_quality = 7 / 10 \<rparr>)
          else Inl CanvasContextFailed)"
  by (cases source; cases outcome)
     (simp_all add: compressImage_def createObjectURL_def Let_def split: prod.splits)

text \<open>
  Claim C7, amended.  A decoded image with a canvas context is encoded as
  \<open>image/jpeg\<close> at quality 0.7 on a canvas of the limited size.  The size is
  unchanged when both dimensions are at most 1920; otherwise the longer side
  becomes exactly 1920 and the shorter one is the original ratio times 1920,
  rounded to the nearest integer; 4000 by 2000 gives 1920 by 960.  The
  compressor fails exactly on a decode error or when no 2D context is
  returned.
\<close>

theorem compressImage_contract:
  "fst (compressImage enc uid source (Loaded w h) True s) =
     Inr (enc \<lparr> cv_width = fst (limitResolution w h), cv_height = snd (limitResolution w h),
                cv_image = source, cv_mime = ''image/jpeg'', cv_quality = 7 / 10 \<rparr>) \<and>
   (w \<le> 1920 \<and> h \<le> 1920 \<longrightarrow> limitResolution w h = (w, h)) \<and>
   ((1920 < w \<or> 1920 < h) \<and> h < w \<longrightarrow>
      (\<exists>h'. limitResolution w h = (1920, h') \<and> h' \<le> 1920 \<and>
            2 * w * h' \<le> 2 * (h * 1920) + w \<and> 2 * (h * 1920) + w < 2 * w * h' + 2 * w)) \<and>
   ((1920 < w \<or> 1920 < h) \<and> w \<le> h \<longrightarrow>
      (\<exists>w'. limitResolution w h = (w', 1920) \<and> w' \<le> 1920 \<and>
            2 * h * w' \<le> 2 * (w * 1920) + h \<and> 2 * (w * 1920) + h < 2 * h * w' + 2 * h)) \<and>
   limitResolution 4000 2000 = (1920, 960) \<and>
   (isl (fst (compressImage enc uid source outcome ctx s)) \<longleftrightarrow>
      outcome = LoadError \<or> \<not> ctx)"
proof (intro conjI impI)
  show "fst (compressImage enc uid source (Loaded w h) True s) =
     Inr (enc \<lparr> cv_width = fst (limitResolution w h), cv_height = snd (limitResolution w h),
                cv_image = source, cv_mime = ''image/jpeg'', cv_quality = 7 / 10 \<rparr>)"
    by (simp add: compressImage_result)
next
  assume "w \<le> 1920 \<and> h \<le> 1920"
  then show "limitResolution w h = (w, h)"
    by (simp add: limitResolution_small)
next
  assume a: "(1920 < w \<or> 1920 < h) \<and> h < w"
  then have "0 < w" by simp
  with a show "\<exists>h'. limitResolution w h = (1920, h') \<and> h' \<le> 1920 \<and>
            2 * w * h' \<le> 2 * (h * 1920) + w \<and> 2 * (h * 1920) + w < 2 * w * h' + 2 * w"
    using limitResolution_wide [of h w] mathRoundDiv_lower [of w "h * 1920"]
      mathRoundDiv_upper [of w "h * 1920"]
    by simp
next
  assume a: "(1920 < w \<or> 1920 < h) \<and> w \<le> h"
  then have "0 < h" by auto
  with a show "\<exists>w'. limitResolution w h = (w', 1920) \<and> w' \<le> 1920 \<and>
            2 * h * w' \<le> 2 * (w * 1920) + h \<and> 2 * (w * 1920) + h < 2 * h * w' + 2 * h"
    using limitResolution_tall [of w h] mathRoundDiv_lower [of h "w * 1920"]
      mathRoundDiv_upper [of h "w * 1920"]
    by simp
next
  show "limitResolution 4000 2000 = (1920, 960)"
    by (simp add: limitResolution_def maxDim_def mathRoundDiv_def)
next
  show "isl (fst (compressImage enc uid source outcome ctx s)) \<longleftrightarrow>
      outcome = LoadError \<or> \<not> ctx"
    by (cases outcome) (simp_all add: compressImage_result)
qed

theorem compressImage_contract_witness:
  "fst (compressImage sampleEnc ''tmp'' (BlobA 1) (Loaded 1000 3000) True
          (initApp defaultSettings Map.empty)) = Inr ''data:image/jpeg;base64,AAAA'' \<and>
   limitResolution 800 600 = (800, 600) \<and>
   limitResolution 3000 1000 = (1920, 640) \<and>
   limitResolution 1000 3000 = (640, 1920) \<and>
   isl (fst (compressImage sampleEnc ''tmp'' (BlobA 1) LoadError True
          (initApp defaultSettings Map.empty)))"
  using compressImage_contract [of sampleEnc "''tmp''" "BlobA 1" 1000 3000
      "initApp defaultSettings Map.empty" LoadError True]
    compressImage_contract [of sampleEnc "''tmp''" "BlobA 1" 800 600
      "initApp defaultSettings Map.empty" LoadError True]
    compressImage_contract [of sampleEnc "''tmp''" "BlobA 1" 3000 1000
      "initApp defaultSettings Map.empty" LoadError True]
  by (simp add: sampleEnc_def limitResolution_def maxDim_def mathRoundDiv_def)

text \<open>
  Against C7 as stated (it fails only on a decode error): a decodable image
  for which \<open>canvas.getContext('2d')\<close> returns \<open>null\<close> is rejected.
\<close>

theorem compressImage_fails_without_decode_error:
  "fst (compressImage sampleEnc ''tmp'' (BlobA 1) (Loaded 100 100) False
          (initApp defaultSettings Map.empty)) = Inl CanvasContextFailed"
  by (simp add: compressImage_result)

subsection \<open>The top layer and the phases\<close>

lemmas handler_defs =
  handleVideoFileChange_def handleImageFileChange_def createObjectURL_def revokeObjectURL_def
  saveAssetToDB_def setSettings_def compressImage_def restoreBackground_def getAssetFromDB_def
  renderOf_def showing_def

lemma trigger_frame:
  "nextBgImage (triggerBgTransition seen u k s) = nextBgImage s"
  "calls (triggerBgTransition seen u k s) =
     calls s @ (if u = seen then []
                else [\<lparr>c_source = u, c_type = k, c_at = AwaitPreload\<rparr>])"
  by (simp_all add: triggerBgTransition_def)

lemma consoleLog_frame:
  "nextBgImage (consoleLog e s) = nextBgImage s" "calls (consoleLog e s) = calls s"
  by (simp_all add: consoleLog_def)

lemma save_frame:
  "nextBgImage (saveAssetToDB io key d s) = nextBgImage s"
  "calls (saveAssetToDB io key d s) = calls s"
  by (cases io; simp add: saveAssetToDB_def consoleLog_def)+

lemma setSettings_frame:
  "nextBgImage (setSettings f s) = nextBgImage s" "calls (setSettings f s) = calls s"
  by (simp_all add: setSettings_def)

lemma createObjectURL_frame:
  "nextBgImage (snd (createObjectURL uid b s)) = nextBgImage s"
  "calls (snd (createObjectURL uid b s)) = calls s"
  by (simp_all add: createObjectURL_def)

lemma compressImage_frame:
  "nextBgImage (snd (compressImage enc uid src outcome ctx s)) = nextBgImage s"
  "calls (snd (compressImage enc uid src outcome ctx s)) = calls s"
  by (cases src; cases outcome;
      simp add: compressImage_def createObjectURL_def revokeObjectURL_def Let_def
        split: prod.splits)+

lemma getAsset_frame:
  "nextBgImage (snd (getAssetFromDB io key s)) = nextBgImage s"
  "calls (snd (getAssetFromDB io key s)) = calls s"
  by (cases io; simp add: getAssetFromDB_def consoleLog_def)+

lemmas frame_simps =
  trigger_frame consoleLog_frame save_frame setSettings_frame createObjectURL_frame
  compressImage_frame getAsset_frame

lemma snd_frame:
  "f s = (r, s') \<Longrightarrow> s' = snd (f s)"
  by simp

lemma extends_restore: "extends s (restoreBackground rd io1 io2 uid s)"
  unfolding restoreBackground_def extends_def
  by (auto simp: frame_simps Let_def split: prod.splits sum.splits option.splits asset.splits
      dest!: snd_frame [of "getAssetFromDB _ _"] snd_frame [of "createObjectURL _ _"])

lemma extends_image:
  "extends s (handleImageFileChange enc rd file uid outcome ctx io1 io2 h r s)"
  unfolding handleImageFileChange_def extends_def
  by (auto simp: frame_simps Let_def split: prod.splits sum.splits
      dest!: snd_frame [of "compressImage _ _ _ _ _"])

lemma extends_video: "extends s (handleVideoFileChange rd file uid io1 io2 h s)"
  unfolding handleVideoFileChange_def extends_def
  by (auto simp: frame_simps Let_def split: prod.splits
      dest!: snd_frame [of "createObjectURL _ _"])

lemma extends_dnUpload: "extends s (handleDayNightUpload enc file v d uid outcome ctx s)"
  unfolding handleDayNightUpload_def extends_def
  by (auto simp: frame_simps Let_def split: prod.splits sum.splits
      dest!: snd_frame [of "compressImage _ _ _ _ _"] snd_frame [of "createObjectURL _ _"])

lemma extends_fetch:
  "extends s (handleFetchBg enc rd entropy fetched uid outcome ctx io1 io2 h s)"
  unfolding handleFetchBg_def extends_def
  by (auto simp: frame_simps Let_def split: prod.splits sum.splits fetch_outcome.splits
      dest!: snd_frame [of "compressImage _ _ _ _ _"])

lemma extends_dayNight: "extends s (dayNightEffect s)"
  unfolding dayNightEffect_def extends_def
  by (auto simp: frame_simps split: option.splits)

lemma extends_owned:
  assumes "extends s s'" and "topLayerOwned s"
  shows "topLayerOwned s'"
proof -
  from assms(1) obtain cs where n: "nextBgImage s' = nextBgImage s"
    and c: "calls s' = calls s @ cs"
    by (auto simp: extends_def)
  show ?thesis
  proof (cases "nextBgImage s = None")
    case True
    with n show ?thesis by (simp add: topLayerOwned_def)
  next
    case False
    with assms(2) obtain i where "i < length (calls s)"
      and "c_at (calls s ! i) = AwaitFade \<or> c_at (calls s ! i) = AwaitClear"
      by (auto simp: topLayerOwned_def)
    then have "i < length (calls s') \<and>
       (c_at (calls s' ! i) = AwaitFade \<or> c_at (calls s' ! i) = AwaitClear)"
      using c by (simp add: nth_append)
    then show ?thesis
      unfolding topLayerOwned_def by blast
  qed
qed

lemma owned_preloadSettled: "topLayerOwned s \<Longrightarrow> topLayerOwned (preloadSettled i ok s)"
proof (cases "i < length (calls s) \<and> c_at (calls s ! i) = AwaitPreload")
  case False
  assume "topLayerOwned s"
  with False show ?thesis by (auto simp add: preloadSettled_def)
next
  case True
  then have "i < length (calls (preloadSettled i ok s)) \<and>
     c_at (calls (preloadSettled i ok s) ! i) = AwaitFade"
    by (simp add: preloadSettled_def consoleLog_def Let_def)
  then show ?thesis
    unfolding topLayerOwned_def by blast
qed

lemma owned_animationFrame: "topLayerOwned s \<Longrightarrow> topLayerOwned (animationFrame s)"
  by (simp add: topLayerOwned_def animationFrame_def)

lemma owned_fadeElapsed:
  assumes "topLayerOwned s"
  shows "topLayerOwned (fadeElapsed i s)"
proof (cases "i < length (calls s) \<and> c_at (calls s ! i) = AwaitFade")
  case False
  with assms show ?thesis by (auto simp add: fadeElapsed_def)
next
  case True
  then have "i < length (calls (fadeElapsed i s)) \<and>
     c_at (calls (fadeElapsed i s) ! i) = AwaitClear"
    by (simp add: fadeElapsed_def Let_def)
  then show ?thesis
    unfolding topLayerOwned_def by blast
qed

lemma owned_clearElapsed: "topLayerOwned s \<Longrightarrow> topLayerOwned (clearElapsed i s)"
  by (simp add: topLayerOwned_def clearElapsed_def)

lemma owned_step: "topLayerOwned s \<Longrightarrow> topLayerOwned (step enc e s)"
proof (cases e)
  case (Tick h)
  assume "topLayerOwned s"
  then show ?thesis using Tick by (simp add: topLayerOwned_def tick_def)
next
  case ToggleDayNightMode
  assume "topLayerOwned s"
  then show ?thesis using ToggleDayNightMode
    by (simp add: topLayerOwned_def setSettings_def)
qed (auto intro: extends_owned [OF extends_restore] extends_owned [OF extends_image]
      extends_owned [OF extends_video] extends_owned [OF extends_dnUpload]
      extends_owned [OF extends_fetch] extends_owned [OF extends_dayNight]
      owned_preloadSettled owned_animationFrame owned_fadeElapsed owned_clearElapsed)

lemma owned_run: "topLayerOwned s \<Longrightarrow> topLayerOwned (run enc es s)"
  by (induction es arbitrary: s) (simp_all add: owned_step)

lemma owned_init: "topLayerOwned (initApp st store)"
  by (simp add: topLayerOwned_def initApp_def)

lemma owned_phase:
  assumes "topLayerOwned s" and "nextBgImage s \<noteq> None"
  shows "phase s \<noteq> Idle"
proof -
  from assms obtain i where i: "i < length (calls s)"
    and a: "c_at (calls s ! i) = AwaitFade \<or> c_at (calls s ! i) = AwaitClear"
    by (auto simp: topLayerOwned_def)
  let ?live = "filter (\<lambda>c. c_at c \<noteq> Finished) (calls s)"
  from i a have "calls s ! i \<in> set ?live"
    by auto
  then have ne: "?live \<noteq> []"
    by (metis empty_iff empty_set)
  then have "last ?live \<in> set ?live"
    by (rule last_in_set)
  then have l: "c_at (last ?live) \<noteq> Finished"
    by simp
  from ne obtain c cs where cs: "?live = c # cs"
    by (cases ?live) auto
  then have "phase s = phaseOf (c_at (last ?live))"
    by (simp add: phase_def)
  with l show ?thesis
    by (cases "c_at (last ?live)") simp_all
qed

text \<open>
  Claim C2, amended.  In every state the application can reach from a fresh
  mount, a defined \<open>nextBgImage\<close> means that a transition is in flight: the
  phase is not Idle, and some call stands between its preload and the
  clearing of the top layer.  So the top layer is never defined while the
  engine is Idle.
\<close>

theorem next_defined_only_in_flight:
  "nextBgImage (run enc es (initApp st store)) \<noteq> None \<Longrightarrow>
     phase (run enc es (initApp st store)) \<noteq> Idle \<and>
     (\<exists>c \<in> set (calls (run enc es (initApp st store))).
        c_at c = AwaitFade \<or> c_at c = AwaitClear)"
proof -
  assume n: "nextBgImage (run enc es (initApp st store)) \<noteq> None"
  have o: "topLayerOwned (run enc es (initApp st store))"
    by (rule owned_run [OF owned_init])
  from o n have "phase (run enc es (initApp st store)) \<noteq> Idle"
    by (rule owned_phase)
  moreover from o n have "\<exists>c \<in> set (calls (run enc es (initApp st store))).
        c_at c = AwaitFade \<or> c_at c = AwaitClear"
    unfolding topLayerOwned_def by (metis nth_mem)
  ultimately show ?thesis by simp
qed

theorem next_defined_only_in_flight_witness:
  "nextBgImage (run sampleEnc (videoUploadRun @ [PreloadSettled 0 True]) freshApp) =
     Some ''blob:u1'' \<and>
   phase (run sampleEnc (videoUploadRun @ [PreloadSettled 0 True]) freshApp) \<noteq> Idle"
proof -
  have n: "nextBgImage (run sampleEnc (videoUploadRun @ [PreloadSettled 0 True]) freshApp) =
     Some ''blob:u1''"
    by (simp add: videoUploadRun_def freshApp_def handler_defs engine_defs
        defaultSettings_def defaultBg_def)
  then show ?thesis
    using next_defined_only_in_flight
      [of sampleEnc "videoUploadRun @ [PreloadSettled 0 True]" defaultSettings Map.empty]
    by (simp add: freshApp_def)
qed

text \<open>
  Against C2 as stated (an equivalence): right after a video upload the
  engine is Preloading and \<open>nextBgImage\<close> is still \<open>null\<close>; it is set when
  the preload settles.
\<close>

theorem next_absent_while_preloading:
  "phase (run sampleEnc videoUploadRun freshApp) = Preloading \<and>
   nextBgImage (run sampleEnc videoUploadRun freshApp) = None"
  by (simp add: videoUploadRun_def freshApp_def handler_defs engine_defs phase_def
      defaultSettings_def defaultBg_def)

subsection \<open>Round trip through IndexedDB\<close>

lemma savedKind_kindValue: "savedKind (Some (StrA (kindValue k))) = k"
  by (cases k) (simp_all add: savedKind_def)

lemma keys_distinct: "KEY_BG \<noteq> KEY_BG_TYPE"
  by (simp add: KEY_BG_def KEY_BG_TYPE_def)

lemma persisted_db:
  "db (saveAssetToDB WriteOk KEY_BG_TYPE t (saveAssetToDB WriteOk KEY_BG d s)) KEY_BG = Some d"
  "db (saveAssetToDB WriteOk KEY_BG_TYPE t (saveAssetToDB WriteOk KEY_BG d s)) KEY_BG_TYPE = Some t"
  using keys_distinct by (simp_all add: saveAssetToDB_def)

lemma finish_transition:
  assumes "u \<noteq> bgImage s"
  shows "bgImage (fadeElapsed (length (calls s))
            (preloadSettled (length (calls s)) ok
              (triggerBgTransition (bgImage s) u k s))) = u"
    and "bgType (fadeElapsed (length (calls s))
            (preloadSettled (length (calls s)) ok
              (triggerBgTransition (bgImage s) u k s))) = k"
  using assms by (simp_all add: engine_defs)

lemma restore_string:
  assumes "\<not> enableDayNightMode st" and "store KEY_BG = Some (StrA e)"
    and "store KEY_BG_TYPE = Some (StrA (kindValue k))" and "e \<noteq> []"
  shows "restoreBackground (renderOf (initApp st store)) ReadOk ReadOk uid (initApp st store) =
           triggerBgTransition (bgImage (initApp st store)) e k (initApp st store)"
  using assms savedKind_kindValue [of k]
  by (simp add: restoreBackground_def getAssetFromDB_def initApp_def renderOf_def)

lemma restore_blob:
  assumes "\<not> enableDayNightMode st" and "store KEY_BG = Some (BlobA b)"
    and "store KEY_BG_TYPE = Some (StrA (kindValue k))"
  shows "restoreBackground (renderOf (initApp st store)) ReadOk ReadOk uid (initApp st store) =
           triggerBgTransition (bgImage (initApp st store)) (''blob:'' @ uid) k
             (snd (createObjectURL uid b (initApp st store)))"
  using assms savedKind_kindValue [of k]
  by (simp add: restoreBackground_def getAssetFromDB_def initApp_def createObjectURL_def
      renderOf_def)

text \<open>
  Claim C3, amended.  Let both keys be written while day/night mode is off,
  and let a fresh instance with day/night mode off run the startup
  restoration to the end of the fade.  A background persisted as a non-empty
  string comes back as \<open>bgImage\<close> with its kind (when the string is the
  built-in default URL nothing is restored, and the displayed kind is that of
  the default, Image).  A background persisted as a Blob comes back with its
  kind, under an object URL that the restoring instance creates for that
  Blob.
\<close>

theorem restore_round_trip:
  assumes "\<not> enableDayNightMode st"
    and "store = db (saveAssetToDB WriteOk KEY_BG_TYPE (StrA (kindValue k))
                     (saveAssetToDB WriteOk KEY_BG d s))"
    and "R = restoreAndFinish uid ok (initApp st store)"
  shows "case d of
           StrA e \<Rightarrow>
             e \<noteq> [] \<and> (e = defaultBg \<longrightarrow> k = Image) \<longrightarrow> bgImage R = e \<and> bgType R = k
         | BlobA b \<Rightarrow>
             bgImage R = ''blob:'' @ uid \<and> map_of (objectUrls R) (bgImage R) = Some b \<and>
             bgType R = k"
proof (cases d)
  case (StrA e)
  have st: "store KEY_BG = Some (StrA e)" "store KEY_BG_TYPE = Some (StrA (kindValue k))"
    using assms(2) StrA by (simp_all add: persisted_db)
  have "bgImage R = e \<and> bgType R = k" if ne: "e \<noteq> []" and dk: "e = defaultBg \<longrightarrow> k = Image"
  proof (cases "e = defaultBg")
    case True
    with dk have "k = Image" by simp
    with True show ?thesis
      unfolding assms(3) restoreAndFinish_def restore_string [OF assms(1) st ne]
      by (simp add: engine_defs)
  next
    case False
    then have "e \<noteq> bgImage (initApp st store)" by (simp add: initApp_def)
    from finish_transition [OF this, of ok k] show ?thesis
      unfolding assms(3) restoreAndFinish_def restore_string [OF assms(1) st ne]
      by (simp add: Let_def)
  qed
  with StrA show ?thesis by simp
next
  case (BlobA b)
  have st: "store KEY_BG = Some (BlobA b)" "store KEY_BG_TYPE = Some (StrA (kindValue k))"
    using assms(2) BlobA by (simp_all add: persisted_db)
  have "bgImage R = ''blob:'' @ uid \<and> map_of (objectUrls R) (bgImage R) = Some b \<and>
             bgType R = k"
    unfolding assms(3) restoreAndFinish_def restore_blob [OF assms(1) st]
    by (simp add: engine_defs createObjectURL_def defaultBg_def)
  with BlobA show ?thesis by auto
qed

theorem restore_round_trip_witness:
  "bgImage (restoreAndFinish ''u2'' True (initApp defaultSettings
      (db (saveAssetToDB WriteOk KEY_BG_TYPE (StrA (kindValue Image))
            (saveAssetToDB WriteOk KEY_BG (StrA ''data:image/jpeg;base64,AAAA'') freshApp))))) =
     ''data:image/jpeg;base64,AAAA'' \<and>
   bgType (restoreAndFinish ''u2'' True (initApp defaultSettings
      (db (saveAssetToDB WriteOk KEY_BG_TYPE (StrA (kindValue Image))
            (saveAssetToDB WriteOk KEY_BG (StrA ''data:image/jpeg;base64,AAAA'') freshApp))))) =
     Image \<and>
   bgImage (restoreAndFinish ''u2'' True (initApp defaultSettings
      (db (saveAssetToDB WriteOk KEY_BG_TYPE (StrA (kindValue Video))
            (saveAssetToDB WriteOk KEY_BG (BlobA 7) freshApp))))) = ''blob:u2'' \<and>
   bgType (restoreAndFinish ''u2'' True (initApp defaultSettings
      (db (saveAssetToDB WriteOk KEY_BG_TYPE (StrA (kindValue Video))
            (saveAssetToDB WriteOk KEY_BG (BlobA 7) freshApp))))) = Video"
proof -
  have dn: "\<not> enableDayNightMode defaultSettings"
    by (simp add: defaultSettings_def)
  have ne: "''data:image/jpeg;base64,AAAA'' \<noteq> []
      \<and> (''data:image/jpeg;base64,AAAA'' = defaultBg \<longrightarrow> Image = Image)"
    by simp
  show ?thesis
    using restore_round_trip [OF dn refl refl, of "''u2''" True Image
        "StrA ''data:image/jpeg;base64,AAAA''" freshApp]
      restore_round_trip [OF dn refl refl, of "''u2''" True Video "BlobA 7" freshApp] ne
    by simp
qed

text \<open>
  Against C3 as stated: a video is stored as its Blob, so what the restored
  instance displays is a new object URL, neither the stored value nor the
  URL that was displayed when the video was persisted.
\<close>

theorem restored_video_has_new_source:
  "db uploadedVideo KEY_BG = Some (BlobA 7) \<and>
   db uploadedVideo KEY_BG_TYPE = Some (StrA ''video'') \<and>
   bgImage uploadedVideo = ''blob:u1'' \<and> bgType uploadedVideo = Video \<and>
   bgImage reloadedVideo = ''blob:u2'' \<and> bgType reloadedVideo = Video \<and>
   bgImage reloadedVideo \<noteq> bgImage uploadedVideo"
  by (simp add: uploadedVideo_def reloadedVideo_def restoreAndFinish_def videoUploadRun_def
      freshApp_def handleVideoFileChange_def createObjectURL_def saveAssetToDB_def
      restoreBackground_def getAssetFromDB_def savedKind_def engine_defs renderOf_def
      showing_def
      defaultSettings_def defaultBg_def KEY_BG_def KEY_BG_TYPE_def)

subsection \<open>Object URLs of superseded backgrounds\<close>

lemma completeTransition_resources:
  "revoked (completeTransition u k ok s) = revoked s"
  "objectUrls (completeTransition u k ok s) = objectUrls s"
  by (simp_all add: engine_defs)

lemma completeTransition_shows:
  assumes "u \<noteq> bgImage s"
  shows "bgImage (completeTransition u k ok s) = u"
    and "nextBgImage (completeTransition u k ok s) = None"
  using assms by (simp_all add: engine_defs)

text \<open>
  Claim C8, amended.  Three transitions A, B, C carried through one after the
  other release nothing: the list of revoked object URLs and the registry of
  object URLs are what they were before, so the references of the superseded
  A and B are never released (and none is released twice), and C's is not
  released either.  When each source differs from the one displayed before
  it, each of the three is displayed in turn, C last, with the top layer
  cleared.
\<close>

theorem transitions_release_nothing:
  "revoked (completeTransition c kc okc (completeTransition b kb okb
      (completeTransition a ka oka s))) = revoked s \<and>
   objectUrls (completeTransition c kc okc (completeTransition b kb okb
      (completeTransition a ka oka s))) = objectUrls s \<and>
   (a \<noteq> bgImage s \<and> b \<noteq> a \<and> c \<noteq> b \<longrightarrow>
      bgImage (completeTransition a ka oka s) = a \<and>
      bgImage (completeTransition b kb okb (completeTransition a ka oka s)) = b \<and>
      bgImage (completeTransition c kc okc (completeTransition b kb okb
        (completeTransition a ka oka s))) = c \<and>
      nextBgImage (completeTransition c kc okc (completeTransition b kb okb
        (completeTransition a ka oka s))) = None)"
proof (intro conjI impI)
  assume d: "a \<noteq> bgImage s \<and> b \<noteq> a \<and> c \<noteq> b"
  then show a: "bgImage (completeTransition a ka oka s) = a"
    by (simp add: completeTransition_shows)
  with d show b: "bgImage (completeTransition b kb okb (completeTransition a ka oka s)) = b"
    by (simp add: completeTransition_shows)
  with d show "bgImage (completeTransition c kc okc (completeTransition b kb okb
        (completeTransition a ka oka s))) = c"
    by (simp add: completeTransition_shows)
  from b d show "nextBgImage (completeTransition c kc okc (completeTransition b kb okb
        (completeTransition a ka oka s))) = None"
    by (simp add: completeTransition_shows)
qed (simp_all add: completeTransition_resources)

theorem transitions_release_nothing_witness:
  "bgImage (completeTransition ''blob:c'' Video True (completeTransition ''blob:b'' Video True
      (completeTransition ''blob:a'' Video True freshApp))) = ''blob:c'' \<and>
   revoked (completeTransition ''blob:c'' Video True (completeTransition ''blob:b'' Video True
      (completeTransition ''blob:a'' Video True freshApp))) = []"
proof -
  have "''blob:a'' \<noteq> bgImage freshApp \<and> ''blob:b'' \<noteq> ''blob:a'' \<and> ''blob:c'' \<noteq> ''blob:b''"
    by (simp add: freshApp_def initApp_def defaultBg_def)
  moreover have "revoked freshApp = []"
    by (simp add: freshApp_def initApp_def)
  ultimately show ?thesis
    using transitions_release_nothing
      [of "''blob:c''" Video True "''blob:b''" Video True "''blob:a''" Video True freshApp]
    by simp
qed

lemmas run_defs =
  handleVideoFileChange_def handleImageFileChange_def createObjectURL_def revokeObjectURL_def
  saveAssetToDB_def setSettings_def compressImage_def renderOf_def showing_def

text \<open>
  Against C8 as stated (A's and B's references released exactly once): after
  three uploaded videos have been shown in turn, the object URLs of the first
  two are still registered and have not been revoked.
\<close>

theorem superseded_urls_never_revoked:
  "bgImage (run sampleEnc threeUploadsRun freshApp) = ''blob:c'' \<and>
   nextBgImage (run sampleEnc threeUploadsRun freshApp) = None \<and>
   map c_at (calls (run sampleEnc threeUploadsRun freshApp)) = [Finished, Finished, Finished] \<and>
   objectUrls (run sampleEnc threeUploadsRun freshApp) =
     [(''blob:c'', 3), (''blob:b'', 2), (''blob:a'', 1)] \<and>
   count_list (revoked (run sampleEnc threeUploadsRun freshApp)) ''blob:a'' = 0 \<and>
   count_list (revoked (run sampleEnc threeUploadsRun freshApp)) ''blob:b'' = 0"
  by (simp add: threeUploadsRun_def freshApp_def run_defs engine_defs
      defaultSettings_def defaultBg_def)

subsection \<open>Ingestion in day/night mode\<close>

lemma db_compressImage:
  "db (snd (compressImage enc uid src outcome ctx s)) = db s"
  by (cases src; cases outcome)
     (simp_all add: compressImage_def createObjectURL_def revokeObjectURL_def Let_def
        split: prod.splits)

lemma db_trigger: "db (triggerBgTransition seen u k s) = db s"
  by (simp add: triggerBgTransition_def)

lemma dayNight_ingestion_keeps_db:
  assumes "enableDayNightMode (r_settings rd)"
  shows "db (handleImageFileChange enc rd file uid outcome ctx io1 io2 h r s) = db s"
    and "db (handleVideoFileChange rd file uid io1 io2 h s) = db s"
    and "db (handleFetchBg enc rd entropy fetched uid outcome ctx io1 io2 h s) = db s"
    and "db (handleDayNightUpload enc file v d uid outcome ctx s) = db s"
proof -
  have c: "\<And>r s'. compressImage enc uid (BlobA file) outcome ctx s = (r, s') \<Longrightarrow> db s' = db s"
    using db_compressImage [of enc uid "BlobA file" outcome ctx s] by simp
  show "db (handleImageFileChange enc rd file uid outcome ctx io1 io2 h r s) = db s"
    using assms
    by (auto simp: handleImageFileChange_def setSettings_def db_trigger consoleLog_def
        split: prod.splits sum.splits dest: c)
  show "db (handleVideoFileChange rd file uid io1 io2 h s) = db s"
    using assms
    by (simp add: handleVideoFileChange_def setSettings_def createObjectURL_def)
  show "db (handleDayNightUpload enc file v d uid outcome ctx s) = db s"
    by (auto simp: handleDayNightUpload_def setSettings_def createObjectURL_def
        split: prod.splits sum.splits dest: c)
  have c': "\<And>b r s'. compressImage enc uid (BlobA b) outcome ctx s = (r, s') \<Longrightarrow> db s' = db s"
    subgoal for b r s'
      using db_compressImage [of enc uid "BlobA b" outcome ctx s] by simp
    done
  show "db (handleFetchBg enc rd entropy fetched uid outcome ctx io1 io2 h s) = db s"
    using assms
    by (auto simp: handleFetchBg_def setSettings_def consoleLog_def Let_def
        split: prod.splits sum.splits fetch_outcome.splits dest: c')
qed


lemma dayNight_upload_writes_slot:
  assumes "enableDayNightMode (r_settings rd)"
  shows "settings (handleImageFileChange enc rd file uid (Loaded w h) True io1 io2 nowHour r s) =
           setSlot (6 \<le> nowHour \<and> nowHour < 18)
             (enc \<lparr> cv_width = fst (limitResolution w h), cv_height = snd (limitResolution w h),
                     cv_image = BlobA file, cv_mime = ''image/jpeg'', cv_quality = 7 / 10 \<rparr>)
             (settings s)"
    and "calls (handleImageFileChange enc rd file uid (Loaded w h) True io1 io2 nowHour r s) =
           calls s"
  using assms
  by (simp_all add: handleImageFileChange_def compressImage_def createObjectURL_def
      revokeObjectURL_def setSettings_def setSlot_def Let_def split: prod.splits)


text \<open>
  Claim C4 says that in day/night mode every ingestion writes its result into
  \<open>dayBgUrl\<close> or \<open>nightBgUrl\<close> only.  The IndexedDB contents are indeed
  left alone by every handler (lemma \<open>dayNight_ingestion_keeps_db\<close>), and
  an image that decodes goes into the slot of the current half of the day
  (lemma \<open>dayNight_upload_writes_slot\<close>).  But
  the \<open>catch\<close> branch of \<open>handleImageFileChange\<close> does not look at the mode:
  an image that fails to decode is handed to \<open>triggerBgTransition\<close> and the
  settings stay as they were.
\<close>

theorem undecodable_upload_bypasses_slots:
  "enableDayNightMode (settings dayNightApp) \<and>
   settings undecodableUpload = settings dayNightApp \<and>
   savedSettings undecodableUpload = savedSettings dayNightApp \<and>
   calls undecodableUpload =
     [\<lparr>c_source = ''data:image/png;base64,AAAA'', c_type = Image, c_at = AwaitPreload\<rparr>] \<and>
   db undecodableUpload KEY_BG = None \<and> db undecodableUpload KEY_BG_TYPE = None"
  by (simp add: undecodableUpload_def dayNightApp_def run_defs engine_defs
      defaultSettings_def defaultBg_def)

subsection \<open>Preload failure\<close>

lemma preload_failure_proceeds:
  "(preloadSettled i False s)\<lparr>console := console s\<rparr> = preloadSettled i True s"
  by (simp add: preloadSettled_def consoleLog_def Let_def)

lemma video_preload_never_logs:
  "i < length (calls s) \<Longrightarrow> c_type (calls s ! i) = Video \<Longrightarrow>
     console (preloadSettled i ok s) = console s"
  by (simp add: preloadSettled_def Let_def)

text \<open>
  Claim C9 says that a failed preload is logged and the transition goes on.
  The transition does go on for both kinds (lemma
  \<open>preload_failure_proceeds\<close>), and the image's \<open>onerror\<close> writes a
  warning; the video's \<open>onerror\<close> resolves without writing anything (lemma
  \<open>video_preload_never_logs\<close>).
\<close>

theorem video_preload_failure_not_logged:
  "console failedVideoPreload = [] \<and>
   nextBgImage failedVideoPreload = Some ''clip.mp4'' \<and>
   bgImage (fadeElapsed 0 failedVideoPreload) = ''clip.mp4'' \<and>
   console (fadeElapsed 0 failedVideoPreload) = [] \<and>
   console failedImagePreload =
     [ConsoleWarn ''Image preload failed, attempting to show anyway.'']"
  by (simp add: failedVideoPreload_def failedImagePreload_def freshApp_def engine_defs
      defaultBg_def)

subsection \<open>Loading the settings\<close>

lemma loadSettings_object:
  "fst (loadSettings (Some (Object parsed))) f =
     (if f = ''clockStyle'' then
        (if isClockStyle (parsed ''clockStyle'') then parsed ''clockStyle''
         else Some (JStr ''IOS_MODERN''))
      else if f = ''clockScale'' then
        (case parsed f of None \<Rightarrow> Some (JNum 1) | Some v \<Rightarrow> Some v)
      else if f = ''calendarScale'' then
        (case parsed f of None \<Rightarrow> Some (JNum (5 / 10)) | Some v \<Rightarrow> Some v)
      else if f = ''enableDayNightMode'' then
        (case parsed f of None \<Rightarrow> Some (JBool False) | Some v \<Rightarrow> Some v)
      else if f = ''dayBgUrl'' then
        (case parsed f of None \<Rightarrow> Some (JStr defaultBg) | Some v \<Rightarrow> Some v)
      else if f = ''nightBgUrl'' then
        (case parsed f of None \<Rightarrow> Some (JStr defaultNightBg) | Some v \<Rightarrow> Some v)
      else parsed f)"
  by (auto simp add: loadSettings_def fillDefault_def Let_def split: option.splits)

lemma valid_default: "validSettings (settingsObject defaultSettings)"
  by (simp add: validSettings_def fieldNames_def settingsObject_def fieldOk_def
      clockStyleValues_def calendarStyleValues_def defaultSettings_def)


lemma fieldOk_filled:
  "fieldOk ''clockScale'' (Some (JNum x))" "fieldOk ''calendarScale'' (Some (JNum x))"
  "fieldOk ''enableDayNightMode'' (Some (JBool b))"
  "fieldOk ''dayBgUrl'' (Some (JStr u))" "fieldOk ''nightBgUrl'' (Some (JStr u))"
  "fieldOk ''clockStyle'' (Some (JStr ''IOS_MODERN''))"
  by (simp_all add: fieldOk_def clockStyleValues_def)

lemma fieldOk_clockStyle:
  "isClockStyle v \<Longrightarrow> fieldOk ''clockStyle'' v"
  by (auto simp: isClockStyle_def fieldOk_def split: option.splits json.splits)

lemma filled_ok:
  assumes "parsed f = None \<or> fieldOk f (parsed f)" and "fieldOk f (Some d)"
  shows "fieldOk f (case parsed f of None \<Rightarrow> Some d | Some v \<Rightarrow> Some v)"
  using assms by (cases "parsed f") simp_all

lemma loadSettings_valid:
  assumes u: "list_all (\<lambda>f. fieldOk f (parsed f)) unguardedFields"
    and d: "list_all (\<lambda>f. parsed f = None \<or> fieldOk f (parsed f)) defaultedFields"
  shows "validSettings (fst (loadSettings (Some (Object parsed))))"
proof -
  let ?r = "fst (loadSettings (Some (Object parsed)))"
  have "fieldOk ''clockStyle'' (?r ''clockStyle'')"
    by (simp add: loadSettings_object fieldOk_filled fieldOk_clockStyle)
  moreover have "fieldOk ''clockScale'' (?r ''clockScale'')"
    using d by (simp add: loadSettings_object defaultedFields_def filled_ok fieldOk_filled)
  moreover have "fieldOk ''calendarScale'' (?r ''calendarScale'')"
    using d by (simp add: loadSettings_object defaultedFields_def filled_ok fieldOk_filled)
  moreover have "fieldOk ''enableDayNightMode'' (?r ''enableDayNightMode'')"
    using d by (simp add: loadSettings_object defaultedFields_def filled_ok fieldOk_filled)
  moreover have "fieldOk ''dayBgUrl'' (?r ''dayBgUrl'')"
    using d by (simp add: loadSettings_object defaultedFields_def filled_ok fieldOk_filled)
  moreover have "fieldOk ''nightBgUrl'' (?r ''nightBgUrl'')"
    using d by (simp add: loadSettings_object defaultedFields_def filled_ok fieldOk_filled)
  moreover have "fieldOk ''showSeconds'' (?r ''showSeconds'')"
    using u by (simp add: loadSettings_object unguardedFields_def)
  moreover have "fieldOk ''is24Hour'' (?r ''is24Hour'')"
    using u by (simp add: loadSettings_object unguardedFields_def)
  moreover have "fieldOk ''calendarStyle'' (?r ''calendarStyle'')"
    using u by (simp add: loadSettings_object unguardedFields_def)
  moreover have "fieldOk ''showCalendar'' (?r ''showCalendar'')"
    using u by (simp add: loadSettings_object unguardedFields_def)
  moreover have "fieldOk ''brightness'' (?r ''brightness'')"
    using u by (simp add: loadSettings_object unguardedFields_def)
  moreover have "fieldOk ''bingApiUrl'' (?r ''bingApiUrl'')"
    using u by (simp add: loadSettings_object unguardedFields_def)
  ultimately show ?thesis
    by (simp add: validSettings_def fieldNames_def)
qed

text \<open>
  Claim C10, amended.  With nothing stored, with text that does not parse and
  with a parsed value that is not an object, the complete default settings
  are returned, and they are a valid \<open>AppSettings\<close>.  For a stored object, a
  \<open>clockStyle\<close> outside the enum is replaced by \<open>IOS_MODERN\<close>, each of
  \<open>clockScale\<close>, \<open>calendarScale\<close>, \<open>enableDayNightMode\<close>, \<open>dayBgUrl\<close>,
  \<open>nightBgUrl\<close> that is missing gets its default, and every other property
  is returned as stored.  The result is a fully populated valid
  \<open>AppSettings\<close> when the stored object holds the six other properties with
  values of their types and the stored ones among the five defaulted
  properties have values of their types.
\<close>

theorem loadSettings_contract:
  "fst (loadSettings None) = settingsObject defaultSettings \<and>
   fst (loadSettings (Some Throws)) = settingsObject defaultSettings \<and>
   fst (loadSettings (Some NotAnObject)) = settingsObject defaultSettings \<and>
   validSettings (settingsObject defaultSettings) \<and>
   fst (loadSettings (Some (Object parsed))) ''clockStyle'' =
     (if isClockStyle (parsed ''clockStyle'') then parsed ''clockStyle''
      else Some (JStr ''IOS_MODERN'')) \<and>
   fst (loadSettings (Some (Object parsed))) ''clockScale'' =
     (case parsed ''clockScale'' of None \<Rightarrow> Some (JNum 1) | Some v \<Rightarrow> Some v) \<and>
   fst (loadSettings (Some (Object parsed))) ''calendarScale'' =
     (case parsed ''calendarScale'' of None \<Rightarrow> Some (JNum (5 / 10)) | Some v \<Rightarrow> Some v) \<and>
   fst (loadSettings (Some (Object parsed))) ''enableDayNightMode'' =
     (case parsed ''enableDayNightMode'' of None \<Rightarrow> Some (JBool False) | Some v \<Rightarrow> Some v) \<and>
   fst (loadSettings (Some (Object parsed))) ''dayBgUrl'' =
     (case parsed ''dayBgUrl'' of None \<Rightarrow> Some (JStr defaultBg) | Some v \<Rightarrow> Some v) \<and>
   fst (loadSettings (Some (Object parsed))) ''nightBgUrl'' =
     (case parsed ''nightBgUrl'' of None \<Rightarrow> Some (JStr defaultNightBg) | Some v \<Rightarrow> Some v) \<and>
   (f \<noteq> ''clockStyle'' \<and> f \<notin> set defaultedFields \<longrightarrow>
      fst (loadSettings (Some (Object parsed))) f = parsed f) \<and>
   (list_all (\<lambda>f. fieldOk f (parsed f)) unguardedFields \<and>
    list_all (\<lambda>f. parsed f = None \<or> fieldOk f (parsed f)) defaultedFields \<longrightarrow>
      validSettings (fst (loadSettings (Some (Object parsed)))))"
proof (intro conjI impI)
  show "validSettings (settingsObject defaultSettings)"
    by (rule valid_default)
next
  assume "f \<noteq> ''clockStyle'' \<and> f \<notin> set defaultedFields"
  then show "fst (loadSettings (Some (Object parsed))) f = parsed f"
    by (simp add: loadSettings_object [of parsed f] defaultedFields_def)
next
  assume "list_all (\<lambda>f. fieldOk f (parsed f)) unguardedFields \<and>
    list_all (\<lambda>f. parsed f = None \<or> fieldOk f (parsed f)) defaultedFields"
  then show "validSettings (fst (loadSettings (Some (Object parsed))))"
    by (simp add: loadSettings_valid)
qed (simp_all add: loadSettings_object, simp_all add: loadSettings_def)

theorem loadSettings_contract_witness:
  "fst (loadSettings (Some (Object storedOld))) ''clockStyle'' = Some (JStr ''IOS_MODERN'') \<and>
   fst (loadSettings (Some (Object storedOld))) ''clockScale'' = Some (JNum (5 / 4)) \<and>
   fst (loadSettings (Some (Object storedOld))) ''calendarScale'' = Some (JNum (1 / 2)) \<and>
   fst (loadSettings (Some (Object storedOld))) ''showSeconds'' = Some (JBool False) \<and>
   validSettings (fst (loadSettings (Some (Object storedOld))))"
proof -
  have c: "\<not> isClockStyle (storedOld ''clockStyle'')"
    by (simp add: storedOld_def isClockStyle_def clockStyleValues_def)
  have v: "storedOld ''clockScale'' = Some (JNum (5 / 4))" "storedOld ''calendarScale'' = None"
    "storedOld ''showSeconds'' = Some (JBool False)"
    by (simp_all add: storedOld_def)
  have n: "''showSeconds'' \<noteq> ''clockStyle'' \<and> ''showSeconds'' \<notin> set defaultedFields"
    by (simp add: defaultedFields_def)
  have u: "list_all (\<lambda>f. fieldOk f (storedOld f)) unguardedFields"
    by (simp add: unguardedFields_def storedOld_def fieldOk_def calendarStyleValues_def)
  have d: "list_all (\<lambda>f. storedOld f = None \<or> fieldOk f (storedOld f)) defaultedFields"
    by (simp add: defaultedFields_def storedOld_def fieldOk_def)
  show ?thesis
    using loadSettings_contract [of storedOld "''showSeconds''"] c v n u d
    by simp
qed

text \<open>
  Against C10 as stated (the result is always fully populated): the stored
  text \<open>{}\<close> parses to the empty object, and what is returned has no
  \<open>showSeconds\<close>.
\<close>

theorem loadSettings_empty_record_incomplete:
  "fst (loadSettings (Some (Object Map.empty))) ''showSeconds'' = None \<and>
   \<not> validSettings (fst (loadSettings (Some (Object Map.empty))))"
proof -
  have s: "fst (loadSettings (Some (Object Map.empty))) ''showSeconds'' = None"
    by (simp add: loadSettings_object)
  then have "\<not> fieldOk ''showSeconds'' (fst (loadSettings (Some (Object Map.empty))) ''showSeconds'')"
    by (simp add: fieldOk_def)
  then have "\<not> validSettings (fst (loadSettings (Some (Object Map.empty))))"
    by (simp add: validSettings_def fieldNames_def)
  with s show ?thesis by simp
qed

end
